theory Spec2Isabelle
  imports Complex_Main "HOL-Library.Word" "HOL-Library.Log_Nat"
begin

section \<open>JavaScript values\<close>

text \<open>
  A JavaScript string is a sequence of UTF-16 code units. The province names of the
  registry are Chinese; every character used lies in the Basic Multilingual Plane, so
  one character is one code unit. ASCII literals of the source are written through
  \<open>ascii\<close>.
\<close>

type_synonym jsstring = "16 word list"

definition ascii :: "string \<Rightarrow> jsstring" where
  "ascii s = map of_char s"

text \<open>
  The values that the expression \<^verbatim>\<open>PROVINCE_ADCODES[provinceName]\<close> can produce, and
  those that can end up in the state \<open>currentAdcode\<close>.
  \<open>PROVINCE_ADCODES\<close> is an object literal, so property access falls back on
  \<^verbatim>\<open>Object.prototype\<close> when the object has no own property of that name: the
  result is then a function or object inherited from the prototype, named here by its
  key. The other values arise when such a function is called: a string, a boolean, the
  wrapper object of a primitive value, a fresh empty object.
  \<open>truthy\<close> is the ToBoolean conversion done by \<^verbatim>\<open>if (adcode)\<close>.
\<close>

datatype jsvalue =
    Undefined
  | Number int
  | Object_prototype_member jsstring
  | String jsstring
  | Bool bool
  | Wrapper jsvalue
  | Empty_object

fun truthy :: "jsvalue \<Rightarrow> bool" where
  "truthy Undefined = False"
| "truthy (Number n) = (n \<noteq> 0)"
| "truthy (Object_prototype_member k) = True"
| "truthy (String str) = (str \<noteq> [])"
| "truthy (Bool b) = b"
| "truthy (Wrapper v) = True"
| "truthy Empty_object = True"

fun is_Object :: "jsvalue \<Rightarrow> bool" where
  "is_Object (Object_prototype_member k) = True"
| "is_Object (Wrapper v) = True"
| "is_Object Empty_object = True"
| "is_Object v = False"

text \<open>\<^verbatim>\<open>Boolean(s)\<close> on a string, as used by \<^verbatim>\<open>.filter(Boolean)\<close> and \<^verbatim>\<open>&& params.name\<close>.\<close>

definition Boolean :: "jsstring \<Rightarrow> bool" where
  "Boolean s = (s \<noteq> [])"

section \<open>Region registry\<close>

text \<open>
  \<^verbatim>\<open>PROVINCE_ADCODES\<close>, in the order of the object literal (which is the order of
  \<^verbatim>\<open>Object.keys\<close>, no key being an array index).
\<close>

definition PROVINCE_ADCODES :: "(jsstring \<times> int) list" where
  "PROVINCE_ADCODES =
   [([0x5317, 0x4EAC, 0x5E02], 110000),
    ([0x5929, 0x6D25, 0x5E02], 120000),
    ([0x6CB3, 0x5317, 0x7701], 130000),
    ([0x5C71, 0x897F, 0x7701], 140000),
    ([0x5185, 0x8499, 0x53E4, 0x81EA, 0x6CBB, 0x533A], 150000),
    ([0x8FBD, 0x5B81, 0x7701], 210000),
    ([0x5409, 0x6797, 0x7701], 220000),
    ([0x9ED1, 0x9F99, 0x6C5F, 0x7701], 230000),
    ([0x4E0A, 0x6D77, 0x5E02], 310000),
    ([0x6C5F, 0x82CF, 0x7701], 320000),
    ([0x6D59, 0x6C5F, 0x7701], 330000),
    ([0x5B89, 0x5FBD, 0x7701], 340000),
    ([0x798F, 0x5EFA, 0x7701], 350000),
    ([0x6C5F, 0x897F, 0x7701], 360000),
    ([0x5C71, 0x4E1C, 0x7701], 370000),
    ([0x6CB3, 0x5357, 0x7701], 410000),
    ([0x6E56, 0x5317, 0x7701], 420000),
    ([0x6E56, 0x5357, 0x7701], 430000),
    ([0x5E7F, 0x4E1C, 0x7701], 440000),
    ([0x5E7F, 0x897F, 0x58EE, 0x65CF, 0x81EA, 0x6CBB, 0x533A], 450000),
    ([0x6D77, 0x5357, 0x7701], 460000),
    ([0x91CD, 0x5E86, 0x5E02], 500000),
    ([0x56DB, 0x5DDD, 0x7701], 510000),
    ([0x8D35, 0x5DDE, 0x7701], 520000),
    ([0x4E91, 0x5357, 0x7701], 530000),
    ([0x897F, 0x85CF, 0x81EA, 0x6CBB, 0x533A], 540000),
    ([0x9655, 0x897F, 0x7701], 610000),
    ([0x7518, 0x8083, 0x7701], 620000),
    ([0x9752, 0x6D77, 0x7701], 630000),
    ([0x5B81, 0x590F, 0x56DE, 0x65CF, 0x81EA, 0x6CBB, 0x533A], 640000),
    ([0x65B0, 0x7586, 0x7EF4, 0x543E, 0x5C14, 0x81EA, 0x6CBB, 0x533A], 650000),
    ([0x53F0, 0x6E7E, 0x7701], 710000),
    ([0x9999, 0x6E2F, 0x7279, 0x522B, 0x884C, 0x653F, 0x533A], 810000),
    ([0x6FB3, 0x95E8, 0x7279, 0x522B, 0x884C, 0x653F, 0x533A], 820000)]"

text \<open>The property names that every ordinary object inherits from \<^verbatim>\<open>Object.prototype\<close>.\<close>

definition Object_prototype_keys :: "jsstring list" where
  "Object_prototype_keys = map ascii
   [''constructor'', ''__proto__'', ''hasOwnProperty'', ''isPrototypeOf'',
    ''propertyIsEnumerable'', ''toLocaleString'', ''toString'', ''valueOf'',
    ''__defineGetter__'', ''__defineSetter__'', ''__lookupGetter__'', ''__lookupSetter__'']"

text \<open>\<^verbatim>\<open>PROVINCE_ADCODES[provinceName]\<close>: own property first, then the prototype.\<close>

definition PROVINCE_ADCODES_get :: "jsstring \<Rightarrow> jsvalue" where
  "PROVINCE_ADCODES_get provinceName =
     (case map_of PROVINCE_ADCODES provinceName of
        Some adcode \<Rightarrow> Number adcode
      | None \<Rightarrow>
          if provinceName \<in> set Object_prototype_keys
          then Object_prototype_member provinceName
          else Undefined)"

definition INITIAL_PROVINCES :: "jsstring list" where
  "INITIAL_PROVINCES = map fst PROVINCE_ADCODES"

section \<open>Types of \<^verbatim>\<open>types.ts\<close>\<close>

text \<open>
  \<open>MapData\<close>: the fields \<^verbatim>\<open>name\<close>, \<^verbatim>\<open>value\<close> and \<^verbatim>\<open>growth\<close>. The value is an integer
  by construction; the growth is a Number (an IEEE 754 double), given by the real number
  it denotes.
\<close>

record MapData =
  data_name :: jsstring
  data_value :: int
  data_growth :: real

text \<open>
  A feature carries its \<^verbatim>\<open>properties.name\<close> and shape data. The shape (\<^verbatim>\<open>geometry: any\<close>)
  is never inspected by the dashboard and is kept opaque; the optional properties
  \<^verbatim>\<open>cp\<close>, \<^verbatim>\<open>center\<close> and \<^verbatim>\<open>adcode\<close> are never read and are left out. A name that
  is missing is dropped by \<^verbatim>\<open>filter(Boolean)\<close> like the empty name, and is given as the
  empty name.
\<close>

datatype shape = Shape nat

record GeoJSONFeature =
  feature_type :: jsstring
  properties_name :: jsstring
  geometry :: shape

record GeoJSON =
  geo_type :: jsstring
  features :: "GeoJSONFeature list"

text \<open>
  What \<^verbatim>\<open>response.json()\<close> can deliver. The cast \<^verbatim>\<open>as GeoJSON\<close> checks nothing, so the
  value is either a \<open>GeoJSON\<close> or something else. Of a value that is not a \<open>GeoJSON\<close>
  two facts decide what the loader does with it: whether it is truthy (the cache test
  \<^verbatim>\<open>if (!geoJson)\<close>), and whether \<^verbatim>\<open>echarts.registerMap\<close> takes it without throwing (it
  throws on \<^verbatim>\<open>null\<close> and takes an object without features). Reading
  \<^verbatim>\<open>geoJson.features.map(...)\<close> of such a value throws a \<^verbatim>\<open>TypeError\<close> in any case.
\<close>

datatype parsed = Geo GeoJSON | Not_GeoJSON bool bool

fun truthy_parsed :: "parsed \<Rightarrow> bool" where
  "truthy_parsed (Geo geoJson) = True"
| "truthy_parsed (Not_GeoJSON is_truthy registers) = is_truthy"

section \<open>Helper functions\<close>

subsection \<open>The date window\<close>

text \<open>
  Time values are milliseconds since the epoch, as in ECMAScript. The local time zone is
  the parameter \<open>tza\<close>, ECMAScript's \<open>LocalTZA(t, isUTC)\<close>: the offset of local time from
  UTC at the UTC time \<open>t\<close> (\<open>isUTC\<close> true) or at the local time \<open>t\<close> (\<open>isUTC\<close> false).
\<close>

type_synonym LocalTZA = "int \<Rightarrow> bool \<Rightarrow> int"

definition msPerDay :: int where
  "msPerDay = 86400000"

definition LocalTime :: "LocalTZA \<Rightarrow> int \<Rightarrow> int" where
  "LocalTime tza t = t + tza t True"

definition UTC :: "LocalTZA \<Rightarrow> int \<Rightarrow> int" where
  "UTC tza t = t - tza t False"

definition Day :: "int \<Rightarrow> int" where
  "Day t = t div msPerDay"

text \<open>
  \<^verbatim>\<open>d.setDate(d.getDate() - i)\<close> on a date with time value \<open>t\<close>: \<open>setDate\<close> works on
  local time. It replaces the day of the month of \<open>LocalTime t\<close> and keeps the time within
  the day; since \<open>MakeDay\<close> is linear in the day of the month, the new local time is
  \<open>i\<close> days before the old one. The result is converted back with \<open>UTC\<close>.
\<close>

definition setDate_getDate_minus :: "LocalTZA \<Rightarrow> int \<Rightarrow> int \<Rightarrow> int" where
  "setDate_getDate_minus tza t i = UTC tza (LocalTime tza t - i * msPerDay)"

text \<open>
  \<^verbatim>\<open>d.toISOString().split('T')[0]\<close>: the calendar date, in UTC, of the time value, as
  \<^verbatim>\<open>YYYY-MM-DD\<close> (the format of the years 0 to 9999). \<open>civil_from_days\<close> turns a day
  number into year, month and day of the proleptic Gregorian calendar.
\<close>

definition civil_from_days :: "int \<Rightarrow> int \<times> int \<times> int" where
  "civil_from_days z0 =
     (let z = z0 + 719468;
          era = z div 146097;
          doe = z - era * 146097;
          yoe = (doe - doe div 1460 + doe div 36524 - doe div 146096) div 365;
          doy = doe - (365 * yoe + yoe div 4 - yoe div 100);
          mp = (5 * doy + 2) div 153;
          d = doy - (153 * mp + 2) div 5 + 1;
          m = (if mp < 10 then mp + 3 else mp - 9);
          y = yoe + era * 400 + (if m \<le> 2 then 1 else 0)
      in (y, m, d))"

definition digit :: "int \<Rightarrow> 16 word" where
  "digit n = of_int (48 + n mod 10)"

definition pad2 :: "int \<Rightarrow> jsstring" where
  "pad2 n = [digit (n div 10), digit n]"

definition pad4 :: "int \<Rightarrow> jsstring" where
  "pad4 n = [digit (n div 1000), digit (n div 100), digit (n div 10), digit n]"

fun date_string :: "int \<times> int \<times> int \<Rightarrow> jsstring" where
  "date_string (y, m, d) = pad4 y @ ascii ''-'' @ pad2 m @ ascii ''-'' @ pad2 d"

definition toISOString_date :: "int \<Rightarrow> jsstring" where
  "toISOString_date t = date_string (civil_from_days (Day t))"

text \<open>
  \<open>getLast7Days\<close>: the loop \<^verbatim>\<open>for (let i = 6; i >= 0; i--)\<close>. Every iteration reads the
  clock anew (\<^verbatim>\<open>new Date()\<close>); \<open>now i\<close> is the reading of iteration \<open>i\<close>.
\<close>

function getLast7Days_loop ::
  "LocalTZA \<Rightarrow> (int \<Rightarrow> int) \<Rightarrow> int \<Rightarrow> jsstring list \<Rightarrow> jsstring list" where
  "getLast7Days_loop tza now i dates =
     (if i \<ge> 0
      then getLast7Days_loop tza now (i - 1)
             (dates @ [toISOString_date (setDate_getDate_minus tza (now i) i)])
      else dates)"
  by pat_completeness auto
termination
  by (relation "measure (\<lambda>(tza, now, i, dates). nat (i + 1))") auto

declare getLast7Days_loop.simps [simp del]

definition getLast7Days :: "LocalTZA \<Rightarrow> (int \<Rightarrow> int) \<Rightarrow> jsstring list" where
  "getLast7Days tza now = getLast7Days_loop tza now 6 []"

subsection \<open>Numbers\<close>

text \<open>
  A Number of JavaScript is an IEEE 754 double. It is given here by the real number it
  denotes, and every arithmetic operation is the exact operation followed by
  \<open>number_value\<close>, the rounding to the nearest double, ties to the even significand
  (ECMAScript's "the Number value for x"). \<open>exponent x\<close> is the exponent of the binade of
  \<open>x\<close>, not below -1022 (the subnormal range), and \<open>ulp x\<close> the distance between
  neighbouring doubles there: 53 bits of significand. Overflow to infinity is left out:
  no operation of the dashboard comes near \<open>2 ^ 1024\<close>. A numeric literal of the source
  such as \<^verbatim>\<open>0.4\<close> denotes \<open>number_value 0.4\<close>.
\<close>

definition round_half_even :: "real \<Rightarrow> int" where
  "round_half_even y =
     (if y - of_int \<lfloor>y\<rfloor> < 1 / 2 then \<lfloor>y\<rfloor>
      else if 1 / 2 < y - of_int \<lfloor>y\<rfloor> then \<lfloor>y\<rfloor> + 1
      else if even \<lfloor>y\<rfloor> then \<lfloor>y\<rfloor> else \<lfloor>y\<rfloor> + 1)"

definition exponent :: "real \<Rightarrow> int" where
  "exponent x = max (bitlen \<lfloor>\<bar>x\<bar> * 2 ^ 1074\<rfloor> - 1075) (- 1022)"

definition ulp :: "real \<Rightarrow> real" where
  "ulp x = 2 powi (exponent x - 52)"

definition number_value :: "real \<Rightarrow> real" where
  "number_value x = of_int (round_half_even (x / ulp x)) * ulp x"

subsection \<open>The metric generator\<close>

text \<open>
  \<^verbatim>\<open>x.toFixed(2)\<close>, read as a decimal fraction: the multiple of 0.01 nearest to the exact
  value of \<open>x\<close>, the larger in magnitude when two are equally near. \<^verbatim>\<open>parseFloat\<close> then
  takes the Number value of that fraction.
\<close>

definition toFixed2 :: "real \<Rightarrow> real" where
  "toFixed2 x =
     (if x < 0 then - (of_int \<lfloor>- x * 100 + 1 / 2\<rfloor> / 100)
      else of_int \<lfloor>x * 100 + 1 / 2\<rfloor> / 100)"

text \<open>
  \<open>generateData\<close>. \<^verbatim>\<open>Math.random()\<close> is the parameter \<open>random\<close>: \<open>random k\<close> is the
  result of the \<open>k\<close>-th call. Each name draws twice, first for the value, then for the
  growth. The product, the difference and the parsed fraction are each rounded to a
  double; \<^verbatim>\<open>Math.floor\<close> and the addition of 1000 are exact.
\<close>

fun generateData :: "(nat \<Rightarrow> real) \<Rightarrow> nat \<Rightarrow> jsstring list \<Rightarrow> MapData list" where
  "generateData random k [] = []"
| "generateData random k (name # regionNames) =
     \<lparr>data_name = name,
      data_value = \<lfloor>number_value (random k * 9000)\<rfloor> + 1000,
      data_growth =
        number_value (toFixed2
          (number_value (number_value (random (k + 1) * number_value 0.4) - number_value 0.2)))\<rparr>
     # generateData random (k + 2) regionNames"

section \<open>The dashboard component\<close>

subsection \<open>Network and rendering library\<close>

text \<open>
  The request \<^verbatim>\<open>fetch(`${MAP_BASE_URL}/${adcode}_full.json`)\<close>: the URL is determined
  by the administrative code alone.
\<close>

datatype url = MAP_BASE_URL_full_json jsvalue

text \<open>
  What can be thrown inside the \<^verbatim>\<open>try\<close> block of \<open>loadMap\<close>: \<open>fetch\<close> rejects on a
  transport error, the code throws \<^verbatim>\<open>new Error(...)\<close> on a non-success status,
  \<^verbatim>\<open>response.json()\<close> rejects on a body that is not JSON, and the use of a parsed
  value that is not a \<open>GeoJSON\<close> throws a \<^verbatim>\<open>TypeError\<close>. An awaited promise may also
  never settle.
\<close>

datatype exception = Transport_error | Error jsstring | SyntaxError | TypeError

datatype 'a promise = Pending | Rejected exception | Fulfilled 'a

record Response =
  ok :: bool
  json :: "parsed promise"

type_synonym network = "url \<Rightarrow> Response promise"

record EChartsOption =
  title_text :: jsstring
  title_subtext :: jsstring
  geo_map :: jsstring
  series_data :: "MapData list"

datatype console_entry =
    Entering_Province jsstring jsvalue
  | No_adcode_found
  | Console_error exception

subsection \<open>State\<close>

text \<open>
  The state hooks of the component (\<open>isLoading\<close> to \<open>currentRegionNames\<close>), its refs
  (\<open>mapCache\<close>, and \<open>chartInstance\<close> with the option last set on the chart), and the
  world around it: the maps registered with the rendering library, the requests sent,
  the console, and the number of calls made to \<^verbatim>\<open>Math.random\<close>.
\<close>

record dashboard =
  isLoading :: bool
  error :: "jsstring option"
  dates :: "jsstring list"
  selectedDate :: jsstring
  currentMapName :: jsstring
  currentAdcode :: jsvalue
  currentRegionNames :: "jsstring list"
  mapCache :: "jsstring \<rightharpoonup> parsed"
  chartInstance :: "EChartsOption option option"
  registeredMaps :: "jsstring \<rightharpoonup> parsed"
  requests :: "url list"
  console :: "console_entry list"
  randomCalls :: nat

text \<open>
  The state of the first render. \<open>getLast7Days\<close> is called once for \<open>dates\<close> and once
  more for \<open>selectedDate\<close>, with clock readings \<open>now\<close> and \<open>now'\<close>; entry 6 exists since
  the loop always yields seven entries.
\<close>

definition initial :: "LocalTZA \<Rightarrow> (int \<Rightarrow> int) \<Rightarrow> (int \<Rightarrow> int) \<Rightarrow> dashboard" where
  "initial tza now now' =
     \<lparr>isLoading = True,
      error = None,
      dates = getLast7Days tza now,
      selectedDate = getLast7Days tza now' ! 6,
      currentMapName = ascii ''china'',
      currentAdcode = Number 100000,
      currentRegionNames = INITIAL_PROVINCES,
      mapCache = Map.empty,
      chartInstance = None,
      registeredMaps = Map.empty,
      requests = [],
      console = [],
      randomCalls = 0\<rparr>"

subsection \<open>Loading a map\<close>

text \<open>
  How a call of \<open>loadMap\<close> can end: the \<^verbatim>\<open>try\<close> block ran to its end and React rendered
  the new state (\<open>Success\<close>); the \<^verbatim>\<open>catch\<close> block ran (\<open>Failure\<close>); an awaited promise never
  settled (\<open>Unsettled\<close>; the state is then the one the call is left waiting in); or the
  \<^verbatim>\<open>try\<close> block ran to its end but React threw while rendering the queued updates
  (\<open>Render_error\<close>, see \<open>setCurrentAdcode\<close>).
\<close>

datatype load_outcome = Success | Failure | Unsettled | Render_error

text \<open>The first two statements of \<open>loadMap\<close>, before the \<^verbatim>\<open>try\<close> block.\<close>

definition loadMap_start :: "dashboard \<Rightarrow> dashboard" where
  "loadMap_start s = s\<lparr>isLoading := True, error := None\<rparr>"

text \<open>
  \<^verbatim>\<open>mapCache.current.get(mapName)\<close> followed by the test \<^verbatim>\<open>if (!geoJson)\<close>: the cached
  value counts only when it is truthy.
\<close>

definition cached :: "(jsstring \<rightharpoonup> parsed) \<Rightarrow> jsstring \<Rightarrow> parsed option" where
  "cached cache mapName =
     (case cache mapName of
        None \<Rightarrow> None
      | Some geoJson \<Rightarrow> if truthy_parsed geoJson then Some geoJson else None)"

text \<open>
  The awaited part of the cache-miss branch: the fetch, the status check and the parse.
\<close>

definition fetch_geoJson :: "network \<Rightarrow> jsvalue \<Rightarrow> jsstring \<Rightarrow> parsed promise" where
  "fetch_geoJson net adcode mapName =
     (case net (MAP_BASE_URL_full_json adcode) of
        Pending \<Rightarrow> Pending
      | Rejected e \<Rightarrow> Rejected e
      | Fulfilled response \<Rightarrow>
          if \<not> ok response
          then Rejected (Error (ascii ''Failed to load map data for '' @ mapName))
          else json response)"

text \<open>
  \<^verbatim>\<open>setCurrentAdcode(adcode)\<close>. React stores a value that is not a function. A function
  it calls as an updater, with the previous state as argument and no \<^verbatim>\<open>this\<close>, while
  rendering, and stores the result; when the call throws, the render throws and React
  removes the component. The only functions that can arrive here are those inherited from
  \<^verbatim>\<open>Object.prototype\<close> (\<^verbatim>\<open>__proto__\<close> is an object, not a function):
  \<^verbatim>\<open>Object(v)\<close> wraps a primitive, \<^verbatim>\<open>toString\<close> names the missing \<^verbatim>\<open>this\<close>,
  \<^verbatim>\<open>isPrototypeOf(v)\<close> answers false for a primitive before it looks at \<^verbatim>\<open>this\<close>, and
  all the others start by converting \<^verbatim>\<open>this\<close> to an object, which throws.
\<close>

definition Object_prototype_call :: "jsstring \<Rightarrow> jsvalue \<Rightarrow> exception + jsvalue" where
  "Object_prototype_call k v =
     (if k = ascii ''constructor'' then
        Inr (if v = Undefined then Empty_object else if is_Object v then v else Wrapper v)
      else if k = ascii ''toString'' then Inr (String (ascii ''[object Undefined]''))
      else if k = ascii ''isPrototypeOf'' then
        (if is_Object v then Inl TypeError else Inr (Bool False))
      else Inl TypeError)"

definition setCurrentAdcode :: "jsvalue \<Rightarrow> jsvalue \<Rightarrow> exception + jsvalue" where
  "setCurrentAdcode adcode previous =
     (case adcode of
        Object_prototype_member k \<Rightarrow>
          if k = ascii ''__proto__'' then Inr adcode else Object_prototype_call k previous
      | _ \<Rightarrow> Inr adcode)"

text \<open>The state updates at the end of the \<^verbatim>\<open>try\<close> block, as React renders them.\<close>

definition subRegions :: "GeoJSON \<Rightarrow> jsstring list" where
  "subRegions geoJson = filter Boolean (map properties_name (features geoJson))"

definition loadMap_finish :: "jsvalue \<Rightarrow> jsstring \<Rightarrow> GeoJSON \<Rightarrow> dashboard \<Rightarrow> dashboard" where
  "loadMap_finish stored mapName geoJson s =
     s\<lparr>currentRegionNames := subRegions geoJson,
       currentMapName := mapName,
       currentAdcode := stored,
       isLoading := False\<rparr>"

text \<open>The \<^verbatim>\<open>catch\<close> block.\<close>

definition loadMap_catch :: "exception \<Rightarrow> jsstring \<Rightarrow> dashboard \<Rightarrow> dashboard" where
  "loadMap_catch err mapName s =
     s\<lparr>console := console s @ [Console_error err],
       error := Some (ascii ''Unable to load map for '' @ mapName
                        @ ascii ''. Please check network or adcode.''),
       isLoading := False\<rparr>"

text \<open>
  The rest of the \<^verbatim>\<open>try\<close> block once \<open>geoJson\<close> is at hand, from the cache or from the
  network: register the map, extract the names of the sub-regions, update the state.
  A value that is not a \<open>GeoJSON\<close> makes the registration or the extraction throw, which
  leads to the \<^verbatim>\<open>catch\<close> block. After \<open>Render_error\<close> React has removed the component
  and nothing is shown any more, neither a loading overlay nor an error message; the
  state given then keeps the updates that came before the failing one.
\<close>

definition loadMap_use ::
  "jsvalue \<Rightarrow> jsstring \<Rightarrow> parsed \<Rightarrow> dashboard \<Rightarrow> load_outcome \<times> dashboard" where
  "loadMap_use adcode mapName body s =
     (case body of
        Not_GeoJSON is_truthy registers \<Rightarrow>
          (Failure,
           loadMap_catch TypeError mapName
             (if registers then s\<lparr>registeredMaps := (registeredMaps s)(mapName \<mapsto> body)\<rparr>
              else s))
      | Geo geoJson \<Rightarrow>
          (let s' = s\<lparr>registeredMaps := (registeredMaps s)(mapName \<mapsto> body)\<rparr> in
           case setCurrentAdcode adcode (currentAdcode s) of
             Inl err \<Rightarrow> (Render_error, s')
           | Inr stored \<Rightarrow> (Success, loadMap_finish stored mapName geoJson s')))"

text \<open>
  \<open>loadMap\<close>, run to its end. The parsed body is written to the cache as soon as it is
  parsed, before it is used.
\<close>

definition loadMap ::
  "network \<Rightarrow> jsvalue \<Rightarrow> jsstring \<Rightarrow> dashboard \<Rightarrow> load_outcome \<times> dashboard" where
  "loadMap net adcode mapName s =
     (let s1 = loadMap_start s in
      case cached (mapCache s1) mapName of
        Some geoJson \<Rightarrow> loadMap_use adcode mapName geoJson s1
      | None \<Rightarrow>
          (let s2 = s1\<lparr>requests := requests s1 @ [MAP_BASE_URL_full_json adcode]\<rparr> in
           case fetch_geoJson net adcode mapName of
             Pending \<Rightarrow> (Unsettled, s2)
           | Rejected err \<Rightarrow> (Failure, loadMap_catch err mapName s2)
           | Fulfilled geoJson \<Rightarrow>
               loadMap_use adcode mapName geoJson
                 (s2\<lparr>mapCache := (mapCache s2)(mapName \<mapsto> geoJson)\<rparr>)))"

definition handleBackToNational :: "network \<Rightarrow> dashboard \<Rightarrow> load_outcome \<times> dashboard" where
  "handleBackToNational net s = loadMap net (Number 100000) (ascii ''china'') s"

subsection \<open>Drill-down click\<close>

record click_params =
  componentType :: jsstring
  params_name :: jsstring

text \<open>
  The click handler registered on the chart. The result is \<open>None\<close> when no load was
  started, and the outcome of the load otherwise.
\<close>

definition on_click ::
  "network \<Rightarrow> click_params \<Rightarrow> dashboard \<Rightarrow> load_outcome option \<times> dashboard" where
  "on_click net params s =
     (if componentType params = ascii ''series'' \<and> Boolean (params_name params) then
        (let provinceName = params_name params;
             adcode = PROVINCE_ADCODES_get provinceName in
         if truthy adcode then
           (case loadMap net adcode provinceName
                   (s\<lparr>console := console s @ [Entering_Province provinceName adcode]\<rparr>) of
              (outcome, s') \<Rightarrow> (Some outcome, s'))
         else (None, s\<lparr>console := console s @ [No_adcode_found]\<rparr>))
      else (None, s))"

subsection \<open>Rendering and date selection\<close>

text \<open>
  The body of the render effect: nothing without a chart or while loading; otherwise
  fresh metrics for the visible regions and a full replacement of the chart's option.
\<close>

definition render_effect :: "(nat \<Rightarrow> real) \<Rightarrow> dashboard \<Rightarrow> dashboard" where
  "render_effect random s =
     (case chartInstance s of
        None \<Rightarrow> s
      | Some previous \<Rightarrow>
          if isLoading s then s
          else
            (let data = generateData random (randomCalls s) (currentRegionNames s) in
             s\<lparr>randomCalls := randomCalls s + 2 * length (currentRegionNames s),
               chartInstance := Some (Some
                 \<lparr>title_text =
                    (if currentMapName s = ascii ''china''
                     then [0x5168, 0x56FD, 0x5B9E, 0x76D8, 0x8BA2, 0x5355, 0x91CF, 0x76D1, 0x63A7]
                     else currentMapName s @ [0x5B9E, 0x76D8, 0x6570, 0x636E, 0x8BE6, 0x60C5]),
                  title_subtext = ascii ''Data Date: '' @ selectedDate s,
                  geo_map = currentMapName s,
                  series_data = data\<rparr>)\<rparr>))"

text \<open>
  A click on a timeline entry calls \<^verbatim>\<open>setSelectedDate(date)\<close>. React compares the new
  state with the old one: when they are equal the component is not rendered again and no
  effect runs; otherwise the component renders with the new date, and the render effect
  runs because \<open>selectedDate\<close> is one of its dependencies.
\<close>

definition setSelectedDate :: "(nat \<Rightarrow> real) \<Rightarrow> jsstring \<Rightarrow> dashboard \<Rightarrow> dashboard" where
  "setSelectedDate random date s =
     (if date = selectedDate s then s
      else render_effect random (s\<lparr>selectedDate := date\<rparr>))"

section \<open>Example data\<close>

text \<open>
  Concrete inputs at which the theorems below are instantiated: the names of Guangdong
  province, of Beijing and of the city of Guangzhou, a small boundary geometry with one unnamed
  feature, a state of the dashboard showing the national map with the geometry of
  Guangdong already cached, the same state while a load is shown as in progress, and
  behaviours of the network: an error status, no connection, a body that is not JSON, a
  server that never answers, a server that delivers a given geometry, and one that
  delivers a given parsed value. \<open>null_body\<close> is the JSON text \<^verbatim>\<open>null\<close> (falsy, refused
  by \<^verbatim>\<open>registerMap\<close>), \<open>empty_object_body\<close> the JSON text \<^verbatim>\<open>{}\<close> (truthy, taken by
  \<^verbatim>\<open>registerMap\<close>); \<open>after_null_body\<close> and \<open>after_empty_object_body\<close> are the states left
  by a load of Beijing that received them. \<open>example_random\<close> is a random source whose first
  result is the double nearest to 0.999 and whose other results are 0.5625.
\<close>

definition guangdong :: jsstring where
  "guangdong = [0x5E7F, 0x4E1C, 0x7701]"

definition beijing :: jsstring where
  "beijing = [0x5317, 0x4EAC, 0x5E02]"

definition guangzhou :: jsstring where
  "guangzhou = [0x5E7F, 0x5DDE, 0x5E02]"

definition example_geoJson :: GeoJSON where
  "example_geoJson =
     \<lparr>geo_type = ascii ''FeatureCollection'',
      features =
        [\<lparr>feature_type = ascii ''Feature'', properties_name = guangzhou, geometry = Shape 0\<rparr>,
         \<lparr>feature_type = ascii ''Feature'', properties_name = [], geometry = Shape 1\<rparr>,
         \<lparr>feature_type = ascii ''Feature'', properties_name = ascii ''constructor'',
          geometry = Shape 2\<rparr>]\<rparr>"

definition example_state :: dashboard where
  "example_state =
     \<lparr>isLoading = False,
      error = None,
      dates = [ascii ''2026-11-01'', ascii ''2026-11-02''],
      selectedDate = ascii ''2026-11-02'',
      currentMapName = ascii ''china'',
      currentAdcode = Number 100000,
      currentRegionNames = INITIAL_PROVINCES,
      mapCache = [guangdong \<mapsto> Geo example_geoJson],
      chartInstance = Some None,
      registeredMaps = Map.empty,
      requests = [],
      console = [],
      randomCalls = 0\<rparr>"

definition http_500 :: network where
  "http_500 u = Fulfilled \<lparr>ok = False, json = Rejected SyntaxError\<rparr>"

definition offline :: network where
  "offline u = Rejected Transport_error"

definition not_json :: network where
  "not_json u = Fulfilled \<lparr>ok = True, json = Rejected SyntaxError\<rparr>"

definition never_answers :: network where
  "never_answers u = Pending"

definition serves_body :: "parsed \<Rightarrow> network" where
  "serves_body body u = Fulfilled \<lparr>ok = True, json = Fulfilled body\<rparr>"

definition serves :: "GeoJSON \<Rightarrow> network" where
  "serves geoJson = serves_body (Geo geoJson)"

definition loading_state :: dashboard where
  "loading_state = example_state\<lparr>isLoading := True\<rparr>"

definition null_body :: parsed where
  "null_body = Not_GeoJSON False False"

definition empty_object_body :: parsed where
  "empty_object_body = Not_GeoJSON True True"

definition after_null_body :: dashboard where
  "after_null_body = snd (loadMap (serves_body null_body) (Number 110000) beijing example_state)"

definition after_empty_object_body :: dashboard where
  "after_empty_object_body =
     snd (loadMap (serves_body empty_object_body) (Number 110000) beijing example_state)"

definition example_random :: "nat \<Rightarrow> real" where
  "example_random j = (if j = 0 then number_value (999 / 1000) else 9 / 16)"

text \<open>
  Two time zones. \<open>fixed_offset\<close> never changes its offset. \<open>europe_berlin_spring_2026\<close>
  is Central European Time around the start of summer time in 2026: the offset goes from
  one hour to two hours on 29 March 2026 (day 20541 of the epoch) at 01:00 UTC, which is
  02:00 local time.
\<close>

definition fixed_offset :: "int \<Rightarrow> LocalTZA" where
  "fixed_offset offset t isUTC = offset"

definition europe_berlin_spring_2026 :: LocalTZA where
  "europe_berlin_spring_2026 t isUTC =
     (if isUTC
      then (if t < 20541 * msPerDay + 3600000 then 3600000 else 7200000)
      else (if t < 20541 * msPerDay + 7200000 then 3600000 else 7200000))"

section \<open>Auxiliary facts\<close>

lemma Boolean_eq: "Boolean = (\<lambda>n. n \<noteq> [])"
  by (rule ext) (simp add: Boolean_def)

lemma setCurrentAdcode_Number: "setCurrentAdcode (Number n) previous = Inr (Number n)"
  by (simp add: setCurrentAdcode_def)

lemma loadMap_not_ok:
  assumes "mapCache s mapName = None"
    and "net (MAP_BASE_URL_full_json adcode) = Fulfilled r"
    and "\<not> ok r"
  shows "loadMap net adcode mapName s =
           (Failure,
            loadMap_catch (Error (ascii ''Failed to load map data for '' @ mapName)) mapName
              ((loadMap_start s)\<lparr>requests := requests s @ [MAP_BASE_URL_full_json adcode]\<rparr>))"
  using assms by (simp add: loadMap_def cached_def loadMap_start_def fetch_geoJson_def Let_def)

lemma loadMap_fetched:
  assumes "cached (mapCache s) mapName = None"
    and "net (MAP_BASE_URL_full_json adcode) = Fulfilled r"
    and "ok r"
    and "json r = Fulfilled body"
  shows "loadMap net adcode mapName s =
           loadMap_use adcode mapName body
             ((loadMap_start s)\<lparr>requests := requests s @ [MAP_BASE_URL_full_json adcode],
                                mapCache := (mapCache s)(mapName \<mapsto> body)\<rparr>)"
  using assms by (simp add: loadMap_def loadMap_start_def fetch_geoJson_def Let_def)

lemma loadMap_cached:
  assumes "cached (mapCache s) mapName = Some body"
  shows "loadMap net adcode mapName s = loadMap_use adcode mapName body (loadMap_start s)"
  using assms by (simp add: loadMap_def loadMap_start_def)

lemma loadMap_use_Number:
  "loadMap_use (Number n) mapName (Geo geoJson) s =
     (Success,
      loadMap_finish (Number n) mapName geoJson
        (s\<lparr>registeredMaps := (registeredMaps s)(mapName \<mapsto> Geo geoJson)\<rparr>))"
  by (simp add: loadMap_use_def setCurrentAdcode_Number)

lemma loadMap_use_Not_GeoJSON:
  "fst (loadMap_use adcode mapName (Not_GeoJSON t r) s) = Failure"
  by (simp add: loadMap_use_def)

lemma beijing_not_cached: "mapCache example_state beijing = None"
  by (simp add: example_state_def guangdong_def beijing_def)

lemma guangdong_cached: "mapCache example_state guangdong = Some (Geo example_geoJson)"
  by (simp add: example_state_def)

lemma example_requests: "requests example_state = []"
  by (simp add: example_state_def)

lemma example_subRegions:
  "filter (\<lambda>n. n \<noteq> []) (map properties_name (features example_geoJson))
     = [guangzhou, ascii ''constructor'']"
  by (simp add: example_geoJson_def guangzhou_def ascii_def)

lemma loadMap_example_ok:
  "loadMap (serves example_geoJson) (Number 110000) beijing example_state =
     (Success,
      loadMap_finish (Number 110000) beijing example_geoJson
        ((loadMap_start example_state)
           \<lparr>requests := requests example_state @ [MAP_BASE_URL_full_json (Number 110000)],
            mapCache := (mapCache example_state)(beijing \<mapsto> Geo example_geoJson),
            registeredMaps := (registeredMaps example_state)(beijing \<mapsto> Geo example_geoJson)\<rparr>))"
proof -
  have "cached (mapCache example_state) beijing = None"
    by (simp add: cached_def beijing_not_cached)
  from loadMap_fetched [OF this, where net = "serves example_geoJson"
       and r = "\<lparr>ok = True, json = Fulfilled (Geo example_geoJson)\<rparr>"
       and body = "Geo example_geoJson" and adcode = "Number 110000"]
  show ?thesis
    by (simp add: serves_def serves_body_def loadMap_use_Number loadMap_start_def)
qed

lemma loadMap_example_failed:
  "fst (loadMap http_500 (Number 110000) beijing example_state) = Failure"
  using loadMap_not_ok [OF beijing_not_cached, where net = http_500
          and r = "\<lparr>ok = False, json = Rejected SyntaxError\<rparr>"]
  by (simp add: http_500_def)

lemma cached_None: "mapCache s mapName = None \<Longrightarrow> cached (mapCache s) mapName = None"
  by (simp add: cached_def)

lemma after_null_body_eq:
  "after_null_body =
     loadMap_catch TypeError beijing
       ((loadMap_start example_state)
          \<lparr>requests := requests example_state @ [MAP_BASE_URL_full_json (Number 110000)],
           mapCache := (mapCache example_state)(beijing \<mapsto> null_body)\<rparr>)"
  using loadMap_fetched [OF cached_None [OF beijing_not_cached],
          where net = "serves_body null_body" and adcode = "Number 110000"
          and r = "\<lparr>ok = True, json = Fulfilled null_body\<rparr>" and body = null_body]
  by (simp add: after_null_body_def serves_body_def loadMap_use_def null_body_def)

lemma after_empty_object_body_eq:
  "after_empty_object_body =
     loadMap_catch TypeError beijing
       ((loadMap_start example_state)
          \<lparr>requests := requests example_state @ [MAP_BASE_URL_full_json (Number 110000)],
           mapCache := (mapCache example_state)(beijing \<mapsto> empty_object_body),
           registeredMaps := (registeredMaps example_state)(beijing \<mapsto> empty_object_body)\<rparr>)"
  using loadMap_fetched [OF cached_None [OF beijing_not_cached],
          where net = "serves_body empty_object_body" and adcode = "Number 110000"
          and r = "\<lparr>ok = True, json = Fulfilled empty_object_body\<rparr>" and body = empty_object_body]
  by (simp add: after_empty_object_body_def serves_body_def loadMap_use_def empty_object_body_def
        loadMap_start_def)

lemma after_null_body_facts:
  "mapCache after_null_body beijing = Some null_body"
  "requests after_null_body = [MAP_BASE_URL_full_json (Number 110000)]"
  by (simp_all add: after_null_body_eq loadMap_catch_def loadMap_start_def example_requests)

lemma after_empty_object_body_facts:
  "mapCache after_empty_object_body beijing = Some empty_object_body"
  "requests after_empty_object_body = [MAP_BASE_URL_full_json (Number 110000)]"
  by (simp_all add: after_empty_object_body_eq loadMap_catch_def loadMap_start_def example_requests)

lemma loading_state_facts:
  "isLoading loading_state"
  "mapCache loading_state beijing = None"
  "\<not> isLoading example_state"
  by (simp_all add: loading_state_def example_state_def guangdong_def beijing_def)

lemma loadMap_example_failed_not_json:
  "fst (loadMap not_json (Number 110000) beijing example_state) = Failure"
  by (simp add: loadMap_def cached_None [OF beijing_not_cached] loadMap_start_def
        fetch_geoJson_def not_json_def)

lemma example_view:
  "currentMapName example_state = ascii ''china''"
  "currentAdcode example_state = Number 100000"
  "currentRegionNames example_state = INITIAL_PROVINCES"
  by (simp_all add: example_state_def)

lemma loadMap_use_toString:
  "loadMap_use (Object_prototype_member (ascii ''toString'')) mapName (Geo geoJson) s =
     (Success,
      loadMap_finish (String (ascii ''[object Undefined]'')) mapName geoJson
        (s\<lparr>registeredMaps := (registeredMaps s)(mapName \<mapsto> Geo geoJson)\<rparr>))"
  by (simp add: loadMap_use_def setCurrentAdcode_def Object_prototype_call_def ascii_def)

lemma loadMap_use_hasOwnProperty:
  "fst (loadMap_use (Object_prototype_member (ascii ''hasOwnProperty'')) mapName (Geo geoJson) s)
     = Render_error"
  by (simp add: loadMap_use_def setCurrentAdcode_def Object_prototype_call_def ascii_def)


section \<open>The map loader\<close>

text \<open>
  C1, as amended. For every map identifier whose cache entry is a boundary geometry,
  \<open>loadMap\<close> with that identifier issues no network request and uses the cached geometry:
  the list of requests is unchanged, the result does not depend on the network at all,
  the cached geometry is the one registered with the rendering library, the cache is left
  as it was, and the call neither fails nor stays pending; when it succeeds the region
  names are those of the cached geometry, and with a numeric administrative code it
  succeeds.
\<close>

theorem loadMap_cache_hit:
  assumes "mapCache s mapName = Some (Geo geoJson)"
  shows "requests (snd (loadMap net adcode mapName s)) = requests s
       \<and> loadMap net adcode mapName s = loadMap net' adcode mapName s
       \<and> registeredMaps (snd (loadMap net adcode mapName s)) mapName = Some (Geo geoJson)
       \<and> mapCache (snd (loadMap net adcode mapName s)) = mapCache s
       \<and> fst (loadMap net adcode mapName s) \<noteq> Failure
       \<and> fst (loadMap net adcode mapName s) \<noteq> Unsettled
       \<and> (fst (loadMap net adcode mapName s) = Success \<longrightarrow>
             currentRegionNames (snd (loadMap net adcode mapName s))
               = filter (\<lambda>n. n \<noteq> []) (map properties_name (features geoJson))
             \<and> currentMapName (snd (loadMap net adcode mapName s)) = mapName)
       \<and> ((\<exists>n. adcode = Number n) \<longrightarrow> fst (loadMap net adcode mapName s) = Success)"
  using assms
  by (auto simp: loadMap_def cached_def loadMap_use_def loadMap_start_def loadMap_finish_def
                 subRegions_def Boolean_eq setCurrentAdcode_Number Let_def
           split: sum.splits)

theorem loadMap_cache_hit_witness:
  "mapCache example_state guangdong = Some (Geo example_geoJson)
   \<and> fst (loadMap http_500 (Number 440000) guangdong example_state) = Success
   \<and> requests (snd (loadMap http_500 (Number 440000) guangdong example_state)) = []
   \<and> currentRegionNames (snd (loadMap http_500 (Number 440000) guangdong example_state))
       = [guangzhou, ascii ''constructor'']
   \<and> currentMapName (snd (loadMap http_500 (Number 440000) guangdong example_state)) = guangdong"
  using loadMap_cache_hit [OF guangdong_cached, of http_500 "Number 440000" http_500]
  by (simp add: guangdong_cached example_subRegions example_requests)

text \<open>
  The claim C1 as stated, for every identifier present in the cache, does not hold. The
  body of a response is written to the cache before it is used, and the cache is tested
  by the truthiness of the entry. After a response with the body \<^verbatim>\<open>null\<close> the identifier
  is in the cache and the next load sends a request again; after a response with the body
  \<^verbatim>\<open>{}\<close> the identifier is in the cache and the next load fails without a request,
  whatever the server would answer.
\<close>

theorem loadMap_cache_hit_counterexample:
  "mapCache after_null_body beijing = Some null_body
   \<and> requests (snd (loadMap (serves example_geoJson) (Number 110000) beijing after_null_body))
       = requests after_null_body @ [MAP_BASE_URL_full_json (Number 110000)]
   \<and> mapCache after_empty_object_body beijing = Some empty_object_body
   \<and> fst (loadMap (serves example_geoJson) (Number 110000) beijing after_empty_object_body)
       = Failure"
proof -
  have miss: "cached (mapCache after_null_body) beijing = None"
    by (simp add: cached_def after_null_body_facts null_body_def)
  have "requests (snd (loadMap (serves example_geoJson) (Number 110000) beijing after_null_body))
          = requests after_null_body @ [MAP_BASE_URL_full_json (Number 110000)]"
    using loadMap_fetched [OF miss, where net = "serves example_geoJson"
            and adcode = "Number 110000"
            and r = "\<lparr>ok = True, json = Fulfilled (Geo example_geoJson)\<rparr>"
            and body = "Geo example_geoJson"]
    by (simp add: serves_def serves_body_def loadMap_use_Number loadMap_finish_def loadMap_start_def)
  moreover have hit: "cached (mapCache after_empty_object_body) beijing = Some empty_object_body"
    by (simp add: cached_def after_empty_object_body_facts empty_object_body_def)
  have "fst (loadMap (serves example_geoJson) (Number 110000) beijing after_empty_object_body)
          = Failure"
    by (simp add: loadMap_cached [OF hit] empty_object_body_def loadMap_use_Not_GeoJSON)
  ultimately show ?thesis
    by (simp add: after_null_body_facts after_empty_object_body_facts)
qed

text \<open>
  C2. The loading flag is false after every call of \<open>loadMap\<close> that settles, in success
  or in failure, whatever it was before; and it is true, whatever it was before, in the
  state of a call that waits for a fetch that does not settle, which is the state every
  call that fetches is in until the fetch settles: \<open>loadMap\<close> sets the flag at its
  invocation and clears it on both paths.
\<close>

theorem loadMap_clears_isLoading:
  "(fst (loadMap net adcode mapName s) = Success \<or> fst (loadMap net adcode mapName s) = Failure
      \<longrightarrow> \<not> isLoading (snd (loadMap net adcode mapName s)))
   \<and> (fst (loadMap net adcode mapName s) = Unsettled
      \<longrightarrow> isLoading (snd (loadMap net adcode mapName s)))"
  by (auto simp: loadMap_def cached_def loadMap_use_def loadMap_start_def loadMap_finish_def
                 loadMap_catch_def Let_def
           split: option.splits promise.splits if_splits parsed.splits sum.splits)

theorem loadMap_clears_isLoading_witness:
  "isLoading loading_state
   \<and> fst (loadMap (serves example_geoJson) (Number 110000) beijing loading_state) = Success
   \<and> \<not> isLoading (snd (loadMap (serves example_geoJson) (Number 110000) beijing loading_state))
   \<and> fst (loadMap http_500 (Number 110000) beijing loading_state) = Failure
   \<and> \<not> isLoading (snd (loadMap http_500 (Number 110000) beijing loading_state))
   \<and> \<not> isLoading example_state
   \<and> fst (loadMap never_answers (Number 110000) beijing example_state) = Unsettled
   \<and> isLoading (snd (loadMap never_answers (Number 110000) beijing example_state))"
proof -
  have ok: "fst (loadMap (serves example_geoJson) (Number 110000) beijing loading_state) = Success"
    using loadMap_fetched [OF cached_None [OF loading_state_facts(2)],
            where net = "serves example_geoJson" and adcode = "Number 110000"
            and r = "\<lparr>ok = True, json = Fulfilled (Geo example_geoJson)\<rparr>"
            and body = "Geo example_geoJson"]
    by (simp add: serves_def serves_body_def loadMap_use_Number)
  have failed: "fst (loadMap http_500 (Number 110000) beijing loading_state) = Failure"
    using loadMap_not_ok [OF loading_state_facts(2), where net = http_500
            and r = "\<lparr>ok = False, json = Rejected SyntaxError\<rparr>"]
    by (simp add: http_500_def)
  have pending: "fst (loadMap never_answers (Number 110000) beijing example_state) = Unsettled"
    by (simp add: loadMap_def cached_None [OF beijing_not_cached] loadMap_start_def
          fetch_geoJson_def never_answers_def)
  show ?thesis
    using ok failed pending loading_state_facts(1,3)
      loadMap_clears_isLoading [of "serves example_geoJson" "Number 110000" beijing loading_state]
      loadMap_clears_isLoading [of http_500 "Number 110000" beijing loading_state]
      loadMap_clears_isLoading [of never_answers "Number 110000" beijing example_state]
    by simp
qed

text \<open>
  C3. Every failure of the fetch (transport error or non-success status) or of the parse
  ends in the \<^verbatim>\<open>catch\<close> block: the outcome is a failure, the loading flag is cleared, and
  the error message is the fixed text around the map identifier. The error message is
  absent in the first state, is cleared at the start of every load, is present after a
  load exactly when that load failed, and is not touched by a date selection.
\<close>

theorem loadMap_error_state:
  "error (initial tza now now') = None
   \<and> error (loadMap_start s) = None
   \<and> error (setSelectedDate random date s) = error s
   \<and> (error (snd (loadMap net adcode mapName s)) \<noteq> None
        \<longleftrightarrow> fst (loadMap net adcode mapName s) = Failure)
   \<and> (mapCache s mapName = None
        \<and> (net (MAP_BASE_URL_full_json adcode) = Rejected e
            \<or> (\<exists>r. net (MAP_BASE_URL_full_json adcode) = Fulfilled r
                    \<and> (\<not> ok r \<or> json r = Rejected e)))
      \<longrightarrow> fst (loadMap net adcode mapName s) = Failure
          \<and> error (snd (loadMap net adcode mapName s))
              = Some (ascii ''Unable to load map for '' @ mapName
                        @ ascii ''. Please check network or adcode.'')
          \<and> \<not> isLoading (snd (loadMap net adcode mapName s)))"
proof -
  have "error (setSelectedDate random date s) = error s"
    by (simp add: setSelectedDate_def render_effect_def Let_def split: option.splits)
  moreover have "error (initial tza now now') = None"
    by (simp add: initial_def)
  moreover have
    "(error (snd (loadMap net adcode mapName s)) \<noteq> None
        \<longleftrightarrow> fst (loadMap net adcode mapName s) = Failure)
   \<and> (mapCache s mapName = None
        \<and> (net (MAP_BASE_URL_full_json adcode) = Rejected e
            \<or> (\<exists>r. net (MAP_BASE_URL_full_json adcode) = Fulfilled r
                    \<and> (\<not> ok r \<or> json r = Rejected e)))
      \<longrightarrow> fst (loadMap net adcode mapName s) = Failure
          \<and> error (snd (loadMap net adcode mapName s))
              = Some (ascii ''Unable to load map for '' @ mapName
                        @ ascii ''. Please check network or adcode.'')
          \<and> \<not> isLoading (snd (loadMap net adcode mapName s)))"
    by (auto simp: loadMap_def cached_def loadMap_use_def loadMap_start_def loadMap_finish_def
                   loadMap_catch_def fetch_geoJson_def Let_def
             split: option.splits promise.splits if_splits parsed.splits sum.splits)
  ultimately show ?thesis
    by (simp add: loadMap_start_def)
qed

theorem loadMap_error_state_witness:
  "mapCache example_state beijing = None
   \<and> http_500 (MAP_BASE_URL_full_json (Number 110000))
       = Fulfilled \<lparr>ok = False, json = Rejected SyntaxError\<rparr>
   \<and> fst (loadMap http_500 (Number 110000) beijing example_state) = Failure
   \<and> error (snd (loadMap http_500 (Number 110000) beijing example_state))
       = Some (ascii ''Unable to load map for '' @ beijing
                 @ ascii ''. Please check network or adcode.'')
   \<and> \<not> isLoading (snd (loadMap http_500 (Number 110000) beijing example_state))
   \<and> offline (MAP_BASE_URL_full_json (Number 110000)) = Rejected Transport_error
   \<and> fst (loadMap offline (Number 110000) beijing example_state) = Failure
   \<and> error (snd (loadMap offline (Number 110000) beijing example_state)) \<noteq> None
   \<and> not_json (MAP_BASE_URL_full_json (Number 110000))
       = Fulfilled \<lparr>ok = True, json = Rejected SyntaxError\<rparr>
   \<and> fst (loadMap not_json (Number 110000) beijing example_state) = Failure
   \<and> error (snd (loadMap not_json (Number 110000) beijing example_state)) \<noteq> None"
  using loadMap_error_state [where s = example_state and net = http_500
          and adcode = "Number 110000" and mapName = beijing and e = SyntaxError]
    loadMap_error_state [where s = example_state and net = offline
          and adcode = "Number 110000" and mapName = beijing and e = Transport_error]
    loadMap_error_state [where s = example_state and net = not_json
          and adcode = "Number 110000" and mapName = beijing and e = SyntaxError]
  by (simp add: beijing_not_cached http_500_def offline_def not_json_def)

text \<open>
  C5. After every successful load the visible region names are exactly the feature names
  of the geometry just loaded (the cached one on a hit, the fetched one on a miss, which is
  then the one in the cache), without the empty names, in the order of the features.
\<close>

theorem loadMap_success_region_names:
  assumes "fst (loadMap net adcode mapName s) = Success"
  shows "\<exists>geoJson.
           (case mapCache s mapName of
              Some entry \<Rightarrow>
                if truthy_parsed entry then entry = Geo geoJson
                else fetch_geoJson net adcode mapName = Fulfilled (Geo geoJson)
            | None \<Rightarrow> fetch_geoJson net adcode mapName = Fulfilled (Geo geoJson))
         \<and> mapCache (snd (loadMap net adcode mapName s)) mapName = Some (Geo geoJson)
         \<and> currentRegionNames (snd (loadMap net adcode mapName s))
             = filter (\<lambda>n. n \<noteq> []) (map properties_name (features geoJson))"
  using assms
  by (auto simp: loadMap_def cached_def loadMap_use_def loadMap_start_def loadMap_finish_def
                 loadMap_catch_def subRegions_def Boolean_eq Let_def
           split: option.splits promise.splits if_splits parsed.splits sum.splits)

theorem loadMap_success_region_names_witness:
  "fst (loadMap (serves example_geoJson) (Number 110000) beijing example_state) = Success
   \<and> currentRegionNames
        (snd (loadMap (serves example_geoJson) (Number 110000) beijing example_state))
       = [guangzhou, ascii ''constructor'']"
proof -
  let ?load = "loadMap (serves example_geoJson) (Number 110000) beijing example_state"
  have ok: "fst ?load = Success"
    by (simp add: loadMap_example_ok)
  have fetched: "fetch_geoJson (serves example_geoJson) (Number 110000) beijing
                   = Fulfilled (Geo example_geoJson)"
    by (simp add: fetch_geoJson_def serves_def serves_body_def)
  from loadMap_success_region_names [OF ok] obtain geoJson where
    "fetch_geoJson (serves example_geoJson) (Number 110000) beijing = Fulfilled (Geo geoJson)"
    and names: "currentRegionNames (snd ?load)
                  = filter (\<lambda>n. n \<noteq> []) (map properties_name (features geoJson))"
    by (auto simp: beijing_not_cached)
  with fetched have "geoJson = example_geoJson" by simp
  with names ok show ?thesis by (simp add: example_subRegions)
qed

text \<open>
  C7. A failed load leaves the map name, the administrative code and the region names as
  they were before it, and likewise the selected date and the date window; of the view
  state only the error message and the loading flag are written.
\<close>

theorem loadMap_failure_frame:
  assumes "fst (loadMap net adcode mapName s) = Failure"
  shows "currentMapName (snd (loadMap net adcode mapName s)) = currentMapName s
       \<and> currentAdcode (snd (loadMap net adcode mapName s)) = currentAdcode s
       \<and> currentRegionNames (snd (loadMap net adcode mapName s)) = currentRegionNames s
       \<and> selectedDate (snd (loadMap net adcode mapName s)) = selectedDate s
       \<and> dates (snd (loadMap net adcode mapName s)) = dates s
       \<and> error (snd (loadMap net adcode mapName s)) \<noteq> None
       \<and> \<not> isLoading (snd (loadMap net adcode mapName s))"
  using assms
  by (auto simp: loadMap_def cached_def loadMap_use_def loadMap_start_def loadMap_finish_def
                 loadMap_catch_def Let_def
           split: option.splits promise.splits if_splits parsed.splits sum.splits)

theorem loadMap_failure_frame_witness:
  "fst (loadMap http_500 (Number 110000) beijing example_state) = Failure
   \<and> currentMapName (snd (loadMap http_500 (Number 110000) beijing example_state))
       = ascii ''china''
   \<and> currentAdcode (snd (loadMap http_500 (Number 110000) beijing example_state))
       = Number 100000
   \<and> currentRegionNames (snd (loadMap http_500 (Number 110000) beijing example_state))
       = INITIAL_PROVINCES"
  using loadMap_failure_frame [OF loadMap_example_failed] loadMap_example_failed
  by (simp add: example_view)

text \<open>
  C10, as amended. The cache is keyed by the map name alone: when the cache entry of the
  map name is a boundary geometry, two loads that differ only in the administrative code
  send no request and register the same geometry; when both succeed, as loads with numeric
  codes do, the region names and the map name are the same and the two states differ at
  most in \<open>currentAdcode\<close>, which takes the code of the call on a cache hit as well.
\<close>

theorem loadMap_cached_ignores_adcode:
  assumes "mapCache s mapName = Some (Geo geoJson)"
  shows "requests (snd (loadMap net adcode1 mapName s)) = requests s
       \<and> requests (snd (loadMap net adcode2 mapName s)) = requests s
       \<and> registeredMaps (snd (loadMap net adcode1 mapName s)) mapName
           = registeredMaps (snd (loadMap net adcode2 mapName s)) mapName
       \<and> mapCache (snd (loadMap net adcode1 mapName s))
           = mapCache (snd (loadMap net adcode2 mapName s))
       \<and> (fst (loadMap net adcode1 mapName s) = Success
            \<and> fst (loadMap net adcode2 mapName s) = Success \<longrightarrow>
              currentRegionNames (snd (loadMap net adcode1 mapName s))
                = currentRegionNames (snd (loadMap net adcode2 mapName s))
              \<and> currentMapName (snd (loadMap net adcode1 mapName s))
                = currentMapName (snd (loadMap net adcode2 mapName s))
              \<and> snd (loadMap net adcode1 mapName s)
                = (snd (loadMap net adcode2 mapName s))
                    \<lparr>currentAdcode := currentAdcode (snd (loadMap net adcode1 mapName s))\<rparr>)
       \<and> ((\<exists>n. adcode1 = Number n) \<longrightarrow>
              fst (loadMap net adcode1 mapName s) = Success
              \<and> currentAdcode (snd (loadMap net adcode1 mapName s)) = adcode1)"
  using assms
  by (auto simp: loadMap_def cached_def loadMap_use_def loadMap_start_def loadMap_finish_def
                 setCurrentAdcode_Number Let_def
           split: sum.splits)

theorem loadMap_cached_ignores_adcode_witness:
  "mapCache example_state guangdong = Some (Geo example_geoJson)
   \<and> fst (loadMap http_500 (Number 440000) guangdong example_state) = Success
   \<and> fst (loadMap http_500 (Number 110000) guangdong example_state) = Success
   \<and> currentRegionNames (snd (loadMap http_500 (Number 440000) guangdong example_state))
       = currentRegionNames (snd (loadMap http_500 (Number 110000) guangdong example_state))
   \<and> currentMapName (snd (loadMap http_500 (Number 440000) guangdong example_state))
       = currentMapName (snd (loadMap http_500 (Number 110000) guangdong example_state))
   \<and> registeredMaps (snd (loadMap http_500 (Number 440000) guangdong example_state)) guangdong
       = registeredMaps (snd (loadMap http_500 (Number 110000) guangdong example_state)) guangdong
   \<and> currentAdcode (snd (loadMap http_500 (Number 440000) guangdong example_state))
       = Number 440000
   \<and> requests (snd (loadMap http_500 (Number 440000) guangdong example_state)) = []"
  using guangdong_cached
    loadMap_cached_ignores_adcode [OF guangdong_cached,
      of http_500 "Number 440000" "Number 110000"]
    loadMap_cached_ignores_adcode [OF guangdong_cached,
      of http_500 "Number 110000" "Number 440000"]
  unfolding example_requests by blast

text \<open>
  The claim C10 as stated ends with the code argument influencing only the fetch URL on a
  cache miss. On a cache hit, where nothing is fetched, the code argument still decides
  the state: two loads of the cached Guangdong map with different codes leave different
  values of \<open>currentAdcode\<close>.
\<close>

theorem loadMap_cached_ignores_adcode_counterexample:
  "mapCache example_state guangdong = Some (Geo example_geoJson)
   \<and> requests (snd (loadMap http_500 (Number 440000) guangdong example_state)) = []
   \<and> requests (snd (loadMap http_500 (Number 110000) guangdong example_state)) = []
   \<and> currentAdcode (snd (loadMap http_500 (Number 440000) guangdong example_state))
       = Number 440000
   \<and> currentAdcode (snd (loadMap http_500 (Number 110000) guangdong example_state))
       = Number 110000
   \<and> snd (loadMap http_500 (Number 440000) guangdong example_state)
       \<noteq> snd (loadMap http_500 (Number 110000) guangdong example_state)"
proof -
  have hit: "cached (mapCache example_state) guangdong = Some (Geo example_geoJson)"
    by (simp add: cached_def guangdong_cached)
  have a: "currentAdcode (snd (loadMap http_500 (Number n) guangdong example_state)) = Number n
         \<and> requests (snd (loadMap http_500 (Number n) guangdong example_state)) = []" for n
    by (simp add: loadMap_cached [OF hit] loadMap_use_Number loadMap_finish_def loadMap_start_def
          example_requests)
  have "snd (loadMap http_500 (Number 440000) guangdong example_state)
          \<noteq> snd (loadMap http_500 (Number 110000) guangdong example_state)"
  proof
    assume "snd (loadMap http_500 (Number 440000) guangdong example_state)
              = snd (loadMap http_500 (Number 110000) guangdong example_state)"
    then have "currentAdcode (snd (loadMap http_500 (Number 440000) guangdong example_state))
              = currentAdcode (snd (loadMap http_500 (Number 110000) guangdong example_state))"
      by simp
    then show False by (simp add: a)
  qed
  then show ?thesis by (simp add: a guangdong_cached)
qed

section \<open>Numbers\<close>

lemma ulp_pos: "0 < ulp x"
  by (simp add: ulp_def)

lemma round_half_even_le: "y \<le> of_int k \<Longrightarrow> round_half_even y \<le> k"
proof -
  assume a: "y \<le> of_int k"
  then have f: "\<lfloor>y\<rfloor> \<le> k" by (simp add: floor_le_iff)
  show ?thesis
  proof (cases "\<lfloor>y\<rfloor> = k")
    case True
    then have "y = of_int k" using a by linarith
    then show ?thesis by (simp add: round_half_even_def)
  next
    case False
    with f have "\<lfloor>y\<rfloor> + 1 \<le> k" by simp
    then show ?thesis using f by (simp add: round_half_even_def)
  qed
qed

lemma round_half_even_ge: "of_int k \<le> y \<Longrightarrow> k \<le> round_half_even y"
proof -
  assume "of_int k \<le> y"
  then have "k \<le> \<lfloor>y\<rfloor>" by (simp add: le_floor_iff)
  then show ?thesis by (simp add: round_half_even_def)
qed

lemma scaled_power:
  assumes "- int N \<le> e"
  shows "(2::real) powi e * 2 ^ N = 2 ^ nat (e + int N)"
proof -
  have "(2::real) powi e * 2 ^ N = 2 powi e * 2 powi (int N)" by simp
  also have "\<dots> = 2 powi (e + int N)" by (simp add: power_int_add)
  also have "\<dots> = 2 ^ nat (e + int N)" using assms by (simp add: power_int_nonneg_exp)
  finally show ?thesis .
qed

lemma scaled_floor_less:
  fixes x :: real
  assumes "\<bar>x\<bar> < 2 powi e" and "- int N \<le> e"
  shows "\<lfloor>\<bar>x\<bar> * 2 ^ N\<rfloor> < 2 ^ nat (e + int N)"
proof -
  have "\<bar>x\<bar> * 2 ^ N < 2 powi e * 2 ^ N" using assms(1) by simp
  then have "\<bar>x\<bar> * 2 ^ N < 2 ^ nat (e + int N)" by (simp only: scaled_power [OF assms(2)])
  then have "\<bar>x\<bar> * 2 ^ N < of_int (2 ^ nat (e + int N))" by simp
  then show ?thesis by (simp only: floor_less_iff)
qed

lemma scaled_floor_ge:
  fixes x :: real
  assumes "2 powi e \<le> \<bar>x\<bar>" and "- int N \<le> e"
  shows "2 ^ nat (e + int N) \<le> \<lfloor>\<bar>x\<bar> * 2 ^ N\<rfloor>"
proof -
  have "2 powi e * 2 ^ N \<le> \<bar>x\<bar> * 2 ^ N" using assms(1) by simp
  then have "2 ^ nat (e + int N) \<le> \<bar>x\<bar> * 2 ^ N" by (simp only: scaled_power [OF assms(2)])
  then have "of_int (2 ^ nat (e + int N)) \<le> \<bar>x\<bar> * 2 ^ N" by simp
  then show ?thesis by (simp only: le_floor_iff)
qed

text \<open>A number below \<open>2 powi e\<close> lies in a binade below \<open>e\<close>.\<close>

lemma exponent_less:
  assumes "\<bar>x\<bar> < 2 powi e" and "- 1021 \<le> e"
  shows "exponent x < e"
proof -
  have "\<lfloor>\<bar>x\<bar> * 2 ^ 1074\<rfloor> < 2 ^ nat (e + int 1074)"
    using assms by (intro scaled_floor_less) simp_all
  then have "bitlen \<lfloor>\<bar>x\<bar> * 2 ^ 1074\<rfloor> \<le> e + 1074"
    using assms(2) by (simp add: bitlen_le_iff_power)
  then show ?thesis using assms(2) by (simp add: exponent_def)
qed

lemma exponent_binade:
  assumes "2 powi e \<le> \<bar>x\<bar>" and "\<bar>x\<bar> < 2 powi (e + 1)" and "- 1022 \<le> e"
  shows "exponent x = e"
proof -
  have lt: "\<lfloor>\<bar>x\<bar> * 2 ^ 1074\<rfloor> < 2 ^ nat (e + 1 + int 1074)"
    using assms by (intro scaled_floor_less) simp_all
  have eq: "nat (e + 1 + int 1074) = nat (e + 1075)" by simp
  have "\<lfloor>\<bar>x\<bar> * 2 ^ 1074\<rfloor> < 2 ^ nat (e + 1075)" using lt unfolding eq .
  then have up: "bitlen \<lfloor>\<bar>x\<bar> * 2 ^ 1074\<rfloor> \<le> e + 1075"
    using assms(3) by (simp add: bitlen_le_iff_power)
  have ge: "2 ^ nat (e + int 1074) \<le> \<lfloor>\<bar>x\<bar> * 2 ^ 1074\<rfloor>"
    using assms by (intro scaled_floor_ge) simp_all
  have eq': "nat (e + int 1074) = nat (e + 1075) - 1" using assms(3) by simp
  have "2 ^ (nat (e + 1075) - 1) \<le> \<lfloor>\<bar>x\<bar> * 2 ^ 1074\<rfloor>" using ge unfolding eq' .
  then have "e + 1075 \<le> bitlen \<lfloor>\<bar>x\<bar> * 2 ^ 1074\<rfloor>"
    by (simp add: bitlen_ge_iff_power)
  with up show ?thesis using assms(3) by (simp add: exponent_def)
qed

text \<open>
  A multiple of \<open>2 powi j\<close> is a multiple of the spacing of the doubles around every \<open>x\<close>
  below \<open>2 powi (j + 53)\<close>; rounding such an \<open>x\<close> cannot cross it.
\<close>

lemma multiple_of_ulp:
  assumes "\<bar>x\<bar> < 2 powi e" and "- 1021 \<le> e"
    and "b = of_int k * 2 powi j" and "e \<le> j + 53"
  shows "\<exists>m::int. b = of_int m * ulp x"
proof -
  let ?d = "j - (exponent x - 52)"
  have d: "0 \<le> ?d" using exponent_less [OF assms(1,2)] assms(4) by simp
  have "(2::real) powi j = 2 powi (?d + (exponent x - 52))" by simp
  also have "\<dots> = 2 powi ?d * 2 powi (exponent x - 52)"
    by (rule power_int_add) simp
  also have "\<dots> = 2 ^ nat ?d * ulp x"
    using d by (simp add: power_int_nonneg_exp ulp_def)
  finally have "b = of_int (k * 2 ^ nat ?d) * ulp x"
    by (simp add: assms(3))
  then show ?thesis by blast
qed

lemma number_value_le:
  assumes "x \<le> b" and "\<exists>m::int. b = of_int m * ulp x"
  shows "number_value x \<le> b"
proof -
  from assms(2) obtain m :: int where b: "b = of_int m * ulp x" by blast
  have "x / ulp x \<le> of_int m" using assms(1) ulp_pos [of x] by (simp add: b field_simps)
  then have "round_half_even (x / ulp x) \<le> m" by (rule round_half_even_le)
  then have "of_int (round_half_even (x / ulp x)) * ulp x \<le> of_int m * ulp x"
    using ulp_pos [of x] by simp
  then show ?thesis by (simp add: number_value_def b)
qed

lemma number_value_ge:
  assumes "b \<le> x" and "\<exists>m::int. b = of_int m * ulp x"
  shows "b \<le> number_value x"
proof -
  from assms(2) obtain m :: int where b: "b = of_int m * ulp x" by blast
  have "of_int m \<le> x / ulp x" using assms(1) ulp_pos [of x] by (simp add: b field_simps)
  then have "m \<le> round_half_even (x / ulp x)" by (rule round_half_even_ge)
  then have "of_int m * ulp x \<le> of_int (round_half_even (x / ulp x)) * ulp x"
    using ulp_pos [of x] by simp
  then show ?thesis by (simp add: number_value_def b)
qed

lemma number_value_within:
  assumes "- b \<le> x" and "x \<le> b" and "b < 2 powi e" and "- 1021 \<le> e"
    and "b = of_int k * 2 powi j" and "e \<le> j + 53"
  shows "- b \<le> number_value x \<and> number_value x \<le> b"
proof -
  have small: "\<bar>x\<bar> < 2 powi e" using assms(1-3) by simp
  have "\<exists>m::int. b = of_int m * ulp x"
    by (rule multiple_of_ulp [OF small assms(4,5,6)])
  moreover from this obtain m :: int where "b = of_int m * ulp x" by blast
  then have "- b = of_int (- m) * ulp x" by simp
  then have "\<exists>m::int. - b = of_int m * ulp x" by blast
  ultimately show ?thesis using assms(1,2) by (simp add: number_value_le number_value_ge)
qed

text \<open>Evaluation: within a binade the spacing is known.\<close>

lemma number_value_binade:
  assumes "2 powi e \<le> \<bar>x\<bar>" and "\<bar>x\<bar> < 2 powi (e + 1)" and "- 1022 \<le> e"
  shows "number_value x = of_int (round_half_even (x / 2 powi (e - 52))) * 2 powi (e - 52)"
  by (simp add: number_value_def ulp_def exponent_binade [OF assms])

lemma number_value_0: "number_value 0 = 0"
  by (simp add: number_value_def round_half_even_def)

lemma number_value_two_tenths: "number_value (2 / 10) = 3602879701896397 / 2 ^ 54"
  using number_value_binade [of "- 3" "2 / 10"]
  by (simp add: round_half_even_def)

lemma number_value_four_tenths: "number_value (4 / 10) = 3602879701896397 / 2 ^ 53"
  using number_value_binade [of "- 2" "4 / 10"]
  by (simp add: round_half_even_def)

lemma number_value_examples:
  "number_value (1 / 2 * 9000) = 4500"
  "number_value (1 / 2 * (3602879701896397 / 2 ^ 53)) = 3602879701896397 / 2 ^ 54"
  "number_value (9 / 16 * (3602879701896397 / 2 ^ 53)) = 8106479329266893 / 2 ^ 55"
  "number_value (8106479329266893 / 2 ^ 55 - 3602879701896397 / 2 ^ 54) = 900719925474099 / 2 ^ 55"
  "number_value (2 / 100) = 5764607523034235 / 2 ^ 58"
  "number_value (999 / 1000) = 8998192055486251 / 2 ^ 53"
  "number_value (8998192055486251 / 2 ^ 53 * 9000) = 8991"
  using number_value_binade [of 12 "1 / 2 * 9000"]
    number_value_binade [of "- 3" "1 / 2 * (3602879701896397 / 2 ^ 53)"]
    number_value_binade [of "- 3" "9 / 16 * (3602879701896397 / 2 ^ 53)"]
    number_value_binade [of "- 6" "8106479329266893 / 2 ^ 55 - 3602879701896397 / 2 ^ 54"]
    number_value_binade [of "- 6" "2 / 100"]
    number_value_binade [of "- 1" "999 / 1000"]
    number_value_binade [of 13 "8998192055486251 / 2 ^ 53 * 9000"]
  by (simp_all add: round_half_even_def)

section \<open>The metric generator\<close>

lemma value_bounds:
  assumes "0 \<le> r" and "r < 1"
  shows "1000 \<le> \<lfloor>number_value (r * 9000)\<rfloor> + 1000
       \<and> \<lfloor>number_value (r * 9000)\<rfloor> + 1000 \<le> 10000"
proof -
  have small: "\<bar>r * 9000\<bar> < 2 powi 14" using assms by simp
  have "\<exists>m::int. (0::real) = of_int m * ulp (r * 9000)" by (rule exI [of _ 0]) simp
  then have lo: "0 \<le> number_value (r * 9000)"
    using assms by (intro number_value_ge) simp_all
  have "\<exists>m::int. (9000::real) = of_int m * ulp (r * 9000)"
    by (rule multiple_of_ulp [OF small, where k = 9000 and j = 0]) simp_all
  then have up: "number_value (r * 9000) \<le> 9000"
    using assms by (intro number_value_le) simp_all
  from lo have "0 \<le> \<lfloor>number_value (r * 9000)\<rfloor>" by simp
  moreover from up have "\<lfloor>number_value (r * 9000)\<rfloor> \<le> 9000"
    by (simp add: floor_le_iff)
  ultimately show ?thesis by simp
qed

lemma toFixed2_bounds:
  assumes "- (205 / 1000) < x" and "x < 205 / 1000"
  shows "- (2 / 10) \<le> toFixed2 x \<and> toFixed2 x \<le> 2 / 10"
proof (cases "x < 0")
  case True
  define n where "n = \<lfloor>- x * 100 + 1 / 2\<rfloor>"
  have "- x * 100 + 1 / 2 < 21" using assms by simp
  then have "n < 21" unfolding n_def by (simp add: floor_less_iff)
  moreover have "0 \<le> - x * 100 + 1 / 2" using True by simp
  then have "0 \<le> n" unfolding n_def by simp
  ultimately have "0 \<le> real_of_int n \<and> real_of_int n \<le> 20" by simp
  moreover have "toFixed2 x = - (real_of_int n / 100)"
    using True by (simp add: toFixed2_def n_def)
  ultimately show ?thesis by simp
next
  case False
  define n where "n = \<lfloor>x * 100 + 1 / 2\<rfloor>"
  have "x * 100 + 1 / 2 < 21" using assms by simp
  then have "n < 21" unfolding n_def by (simp add: floor_less_iff)
  moreover have "0 \<le> x * 100 + 1 / 2" using False by simp
  then have "0 \<le> n" unfolding n_def by simp
  ultimately have "0 \<le> real_of_int n \<and> real_of_int n \<le> 20" by simp
  moreover have "toFixed2 x = real_of_int n / 100"
    using False by (simp add: toFixed2_def n_def)
  ultimately show ?thesis by simp
qed

lemma growth_bounds:
  assumes "0 \<le> r" and "r < 1"
  shows "- number_value 0.2
           \<le> number_value (toFixed2
                (number_value (number_value (r * number_value 0.4) - number_value 0.2)))
       \<and> number_value (toFixed2
                (number_value (number_value (r * number_value 0.4) - number_value 0.2)))
           \<le> number_value 0.2"
proof -
  define c :: real where "c = 3602879701896397 / 2 ^ 54"
  have c02: "number_value 0.2 = c" unfolding c_def by (rule number_value_two_tenths)
  have "2 * c = 3602879701896397 / 2 ^ 53" by (simp add: c_def)
  then have c04: "number_value 0.4 = 2 * c" by (simp only: number_value_four_tenths)
  have c_powi: "c = of_int 3602879701896397 * 2 powi (- 54)"
    by (simp add: c_def power_int_minus_divide)
  have c2_powi: "2 * c = of_int 3602879701896397 * 2 powi (- 53)"
    by (simp add: c_def power_int_minus_divide)
  have c_small: "c < 2 powi (- 2)" by (simp add: c_def power_int_minus_divide)
  have c2_small: "2 * c < 2 powi (- 1)" by (simp add: c_def power_int_minus_divide)
  have c_pos: "0 < c" by (simp add: c_def)
  have c_dec: "2 / 10 \<le> c" "c < 205 / 1000" by (simp_all add: c_def)
  define p where "p = number_value (r * (2 * c))"
  have "0 \<le> r * (2 * c)" using assms c_pos by simp
  then have "- (2 * c) \<le> r * (2 * c)" using c_pos by linarith
  moreover have "r * (2 * c) \<le> 1 * (2 * c)"
    using assms c_pos by (intro mult_right_mono) simp_all
  then have "r * (2 * c) \<le> 2 * c" by simp
  ultimately
  have "- (2 * c) \<le> p \<and> p \<le> 2 * c"
    unfolding p_def by (rule number_value_within [OF _ _ c2_small _ c2_powi]) simp_all
  moreover have "0 \<le> p"
  proof -
    have "\<exists>m::int. (0::real) = of_int m * ulp (r * (2 * c))" by (rule exI [of _ 0]) simp
    then show ?thesis unfolding p_def using assms c_pos by (intro number_value_ge) simp_all
  qed
  ultimately have "- c \<le> p - c" "p - c \<le> c" by simp_all
  then have d: "- c \<le> number_value (p - c) \<and> number_value (p - c) \<le> c"
    by (rule number_value_within [OF _ _ c_small _ c_powi]) simp_all
  define t where "t = toFixed2 (number_value (p - c))"
  have "- (2 / 10) \<le> t \<and> t \<le> 2 / 10"
    unfolding t_def using d c_dec by (intro toFixed2_bounds) simp_all
  then have "- c \<le> t" "t \<le> c" using c_dec by simp_all
  then have "- c \<le> number_value t \<and> number_value t \<le> c"
    by (rule number_value_within [OF _ _ c_small _ c_powi]) simp_all
  then show ?thesis unfolding c02 c04 t_def p_def .
qed

text \<open>
  Two runs of the generator. With every random result 0.5 the value is 5500 and the growth
  0. With the random results 0.999 and 0.5625 the value is 9991: the product with 9000 is
  rounded up to 8991, where the exact product of the double lies below it; and the growth
  is 0.02: the difference is the double just below 0.025, where the exact difference is
  0.025 and would print as 0.03.
\<close>

lemma toFixed2_examples:
  "toFixed2 0 = 0"
  "toFixed2 (900719925474099 / 2 ^ 55) = 2 / 100"
  by (simp_all add: toFixed2_def)

lemma value_half: "\<lfloor>number_value (1 / 2 * 9000)\<rfloor> + 1000 = 5500"
  by (simp only: number_value_examples(1)) simp

lemma growth_half:
  "number_value (toFixed2
     (number_value (number_value (1 / 2 * number_value 0.4) - number_value 0.2))) = 0"
proof -
  have "number_value (number_value (1 / 2 * number_value 0.4) - number_value 0.2)
          = number_value (3602879701896397 / 2 ^ 54 - 3602879701896397 / 2 ^ 54)"
    by (simp only: number_value_four_tenths number_value_two_tenths number_value_examples(2))
  also have "\<dots> = 0" by (simp add: number_value_0)
  finally show ?thesis by (simp only: toFixed2_examples number_value_0)
qed

lemma generateData_half:
  "generateData (\<lambda>j. 1 / 2) 0 [a, b]
     = [\<lparr>data_name = a, data_value = 5500, data_growth = 0\<rparr>,
        \<lparr>data_name = b, data_value = 5500, data_growth = 0\<rparr>]"
  by (simp only: generateData.simps value_half growth_half)

lemma example_random_range: "0 \<le> example_random j \<and> example_random j < 1"
  by (simp add: example_random_def number_value_examples(6))

lemma value_example: "\<lfloor>number_value (example_random 0 * 9000)\<rfloor> + 1000 = 9991"
proof -
  have "example_random 0 = 8998192055486251 / 2 ^ 53"
    using number_value_examples(6) by (simp add: example_random_def)
  then show ?thesis by (simp only: number_value_examples(7)) simp
qed

lemma growth_example:
  "number_value (toFixed2
     (number_value (number_value (example_random (0 + 1) * number_value 0.4) - number_value 0.2)))
   = number_value (2 / 100)"
proof -
  have "example_random (0 + 1) = 9 / 16" by (simp add: example_random_def)
  then have "number_value (number_value (example_random (0 + 1) * number_value 0.4) - number_value 0.2)
          = 900719925474099 / 2 ^ 55"
    by (simp only: number_value_four_tenths number_value_two_tenths number_value_examples(3,4))
  then show ?thesis by (simp only: toFixed2_examples)
qed

lemma generateData_example:
  "generateData example_random 0 [a]
     = [\<lparr>data_name = a, data_value = 9991, data_growth = number_value (2 / 100)\<rparr>]"
  by (simp only: generateData.simps value_example growth_example)

text \<open>
  C6. For every list of region names, \<open>generateData\<close> returns one sample per name, with the
  same names in the same order, and every sample has its value within 1000 and 10000 and
  its growth within -0.2 and 0.2, these two bounds being the Numbers that the literals
  denote. The random source is any sequence of numbers from 0 (included) to 1
  (excluded), which is what \<^verbatim>\<open>Math.random\<close> promises.
\<close>

theorem generateData_contract:
  assumes "\<forall>j. 0 \<le> random j \<and> random j < 1"
  shows "length (generateData random k regionNames) = length regionNames
       \<and> map data_name (generateData random k regionNames) = regionNames
       \<and> (\<forall>d \<in> set (generateData random k regionNames).
             1000 \<le> data_value d \<and> data_value d \<le> 10000
             \<and> - number_value 0.2 \<le> data_growth d \<and> data_growth d \<le> number_value 0.2)"
proof (induction regionNames arbitrary: k)
  case Nil
  show ?case by simp
next
  case (Cons name regionNames)
  have v: "1000 \<le> \<lfloor>number_value (random k * 9000)\<rfloor> + 1000
         \<and> \<lfloor>number_value (random k * 9000)\<rfloor> + 1000 \<le> 10000"
    using assms by (intro value_bounds) simp_all
  have g: "- number_value 0.2
             \<le> number_value (toFixed2
                  (number_value (number_value (random (k + 1) * number_value 0.4) - number_value 0.2)))
         \<and> number_value (toFixed2
                  (number_value (number_value (random (k + 1) * number_value 0.4) - number_value 0.2)))
             \<le> number_value 0.2"
    using assms by (intro growth_bounds) simp_all
  show ?case using Cons.IH [of "k + 2"] v g by simp
qed

theorem generateData_contract_witness:
  "(\<forall>j. 0 \<le> example_random j \<and> example_random j < 1)
   \<and> generateData example_random 0 [guangzhou]
       = [\<lparr>data_name = guangzhou, data_value = 9991, data_growth = number_value (2 / 100)\<rparr>]
   \<and> map data_name (generateData example_random 0 [guangzhou]) = [guangzhou]
   \<and> - number_value 0.2 \<le> number_value (2 / 100)
   \<and> number_value (2 / 100) \<le> number_value 0.2"
proof -
  have r: "\<forall>j. 0 \<le> example_random j \<and> example_random j < 1"
    by (simp add: example_random_range)
  have ex: "generateData example_random 0 [guangzhou]
              = [\<lparr>data_name = guangzhou, data_value = 9991, data_growth = number_value (2 / 100)\<rparr>]"
    by (rule generateData_example)
  show ?thesis
    using r generateData_contract [OF r, of 0 "[guangzhou]"]
    unfolding ex by simp
qed

section \<open>Date selection\<close>

lemma selectedDate_render_effect: "selectedDate (render_effect random s) = selectedDate s"
  by (simp add: render_effect_def Let_def split: option.splits)

lemma selectedDate_setSelectedDate: "selectedDate (setSelectedDate random date s) = date"
  by (simp add: setSelectedDate_def selectedDate_render_effect)

lemma setSelectedDate_same: "selectedDate s = date \<Longrightarrow> setSelectedDate random date s = s"
  by (simp add: setSelectedDate_def)

lemma example_reselect:
  "randomCalls (setSelectedDate random (ascii ''2026-11-01'') example_state) = 68"
  by (simp add: setSelectedDate_def render_effect_def example_state_def ascii_def
        INITIAL_PROVINCES_def PROVINCE_ADCODES_def)

text \<open>
  C9. Selecting a date is idempotent: selecting the date that is already selected leaves
  the whole state as the first selection left it; in particular no random number is
  drawn, so no metrics are generated again, and the option of the chart stays the same.
\<close>

theorem setSelectedDate_idempotent:
  "setSelectedDate random date (setSelectedDate random date s) = setSelectedDate random date s
   \<and> randomCalls (setSelectedDate random date (setSelectedDate random date s))
       = randomCalls (setSelectedDate random date s)
   \<and> chartInstance (setSelectedDate random date (setSelectedDate random date s))
       = chartInstance (setSelectedDate random date s)"
proof -
  have "setSelectedDate random date (setSelectedDate random date s) = setSelectedDate random date s"
    by (rule setSelectedDate_same) (rule selectedDate_setSelectedDate)
  then show ?thesis by simp
qed

theorem setSelectedDate_idempotent_witness:
  "randomCalls example_state = 0
   \<and> randomCalls (setSelectedDate (\<lambda>k. 1 / 2) (ascii ''2026-11-01'') example_state) = 68
   \<and> randomCalls (setSelectedDate (\<lambda>k. 1 / 2) (ascii ''2026-11-01'')
        (setSelectedDate (\<lambda>k. 1 / 2) (ascii ''2026-11-01'') example_state)) = 68"
  using setSelectedDate_idempotent [of "\<lambda>k. 1 / 2" "ascii ''2026-11-01''" example_state]
  by (simp add: example_reselect) (simp add: example_state_def)

section \<open>Drill-down click\<close>

lemma ctor_ascii: "ascii ''constructor'' = [99, 111, 110, 115, 116, 114, 117, 99, 116, 111, 114]"
  by (simp add: ascii_def)

lemma ctor_absent: "map_of PROVINCE_ADCODES [99, 111, 110, 115, 116, 114, 117, 99, 116, 111, 114] = None"
  by (simp add: PROVINCE_ADCODES_def)

lemma ctor_get: "PROVINCE_ADCODES_get (ascii ''constructor'') = Object_prototype_member (ascii ''constructor'')"
  by (simp add: PROVINCE_ADCODES_get_def ctor_ascii ctor_absent Object_prototype_keys_def ascii_def)

lemma on_click_resolved:
  assumes "componentType params = ascii ''series''"
    and "params_name params \<noteq> []"
    and "truthy (PROVINCE_ADCODES_get (params_name params))"
  shows "on_click net params s =
           (case loadMap net (PROVINCE_ADCODES_get (params_name params)) (params_name params)
                   (s\<lparr>console := console s
                        @ [Entering_Province (params_name params)
                             (PROVINCE_ADCODES_get (params_name params))]\<rparr>) of
              (outcome, s') \<Rightarrow> (Some outcome, s'))"
  using assms by (simp add: on_click_def Let_def Boolean_def)

lemma PROVINCE_ADCODES_get_Undefined:
  "PROVINCE_ADCODES_get provinceName = Undefined
     \<longleftrightarrow> map_of PROVINCE_ADCODES provinceName = None
         \<and> provinceName \<notin> set Object_prototype_keys"
  by (simp add: PROVINCE_ADCODES_get_def split: option.splits)

lemma on_click_unresolved:
  assumes "PROVINCE_ADCODES_get (params_name params) = Undefined"
  shows "fst (on_click net params s) = None
       \<and> (snd (on_click net params s))\<lparr>console := console s\<rparr> = s"
  using assms by (simp add: on_click_def)

text \<open>
  C4. A click on a region whose name is not in the registry is meant to start no load.
  The lookup \<^verbatim>\<open>PROVINCE_ADCODES[provinceName]\<close> however also finds what the object inherits
  from \<^verbatim>\<open>Object.prototype\<close>. The name \<^verbatim>\<open>constructor\<close> is not a key of the registry, yet the
  lookup yields a function, which is truthy, and the handler calls \<open>loadMap\<close>: a request
  is sent, and with a server that answers with an error status the load fails and the
  error message is set. (\<open>on_click_unresolved\<close> above is the no-op for the names whose
  lookup is \<^verbatim>\<open>undefined\<close>.)
\<close>

theorem on_click_inherited_property:
  "map_of PROVINCE_ADCODES (ascii ''constructor'') = None
   \<and> fst (on_click http_500 \<lparr>componentType = ascii ''series'', params_name = ascii ''constructor''\<rparr>
            example_state) = Some Failure
   \<and> requests (snd (on_click http_500
         \<lparr>componentType = ascii ''series'', params_name = ascii ''constructor''\<rparr> example_state))
       = [MAP_BASE_URL_full_json (Object_prototype_member (ascii ''constructor''))]
   \<and> error (snd (on_click http_500
         \<lparr>componentType = ascii ''series'', params_name = ascii ''constructor''\<rparr> example_state))
       = Some (ascii ''Unable to load map for constructor. Please check network or adcode.'')"
proof -
  let ?c = "ascii ''constructor''"
  let ?params = "\<lparr>componentType = ascii ''series'', params_name = ?c\<rparr>"
  let ?s = "example_state\<lparr>console := console example_state
              @ [Entering_Province ?c (Object_prototype_member ?c)]\<rparr>"
  have absent: "map_of PROVINCE_ADCODES ?c = None"
    by (simp add: ctor_ascii ctor_absent)
  have click: "on_click http_500 ?params example_state =
         (case loadMap http_500 (Object_prototype_member ?c) ?c ?s of
            (outcome, s') \<Rightarrow> (Some outcome, s'))"
    using on_click_resolved [of ?params http_500 example_state]
    by (simp add: ctor_get) (simp add: ctor_ascii)
  have miss: "mapCache ?s ?c = None"
    by (simp add: example_state_def guangdong_def ctor_ascii)
  have load: "loadMap http_500 (Object_prototype_member ?c) ?c ?s =
         (Failure,
          loadMap_catch (Error (ascii ''Failed to load map data for '' @ ?c)) ?c
            ((loadMap_start ?s)\<lparr>requests := requests ?s
               @ [MAP_BASE_URL_full_json (Object_prototype_member ?c)]\<rparr>))"
    using loadMap_not_ok [OF miss, where net = http_500
            and r = "\<lparr>ok = False, json = Rejected SyntaxError\<rparr>"]
    by (simp add: http_500_def)
  have msg: "ascii ''Unable to load map for '' @ ?c @ ascii ''. Please check network or adcode.''
           = ascii ''Unable to load map for constructor. Please check network or adcode.''"
    by (simp add: ascii_def)
  show ?thesis
    unfolding click load
    using absent msg by (simp add: loadMap_catch_def loadMap_start_def example_state_def)
qed

section \<open>The date window\<close>

lemma dates_loadMap: "dates (snd (loadMap net adcode mapName s)) = dates s"
  by (simp add: loadMap_def cached_def loadMap_use_def loadMap_start_def loadMap_finish_def
        loadMap_catch_def Let_def
        split: option.splits promise.splits parsed.splits sum.splits)

lemma dates_never_refreshed:
  "dates (snd (loadMap net adcode mapName s)) = dates s
   \<and> dates (snd (on_click net params s)) = dates s
   \<and> dates (setSelectedDate random date s) = dates s"
proof -
  have "dates (snd (on_click net params s)) = dates s"
  proof (cases "loadMap net (PROVINCE_ADCODES_get (params_name params)) (params_name params)
                  (s\<lparr>console := console s @ [Entering_Province (params_name params)
                        (PROVINCE_ADCODES_get (params_name params))]\<rparr>)")
    case (Pair outcome s')
    with dates_loadMap [of net "PROVINCE_ADCODES_get (params_name params)" "params_name params"
            "s\<lparr>console := console s @ [Entering_Province (params_name params)
                  (PROVINCE_ADCODES_get (params_name params))]\<rparr>"]
    have "dates s' = dates s" by simp
    with Pair show ?thesis by (simp add: on_click_def Let_def)
  qed
  moreover have "dates (setSelectedDate random date s) = dates s"
    by (simp add: setSelectedDate_def render_effect_def Let_def split: option.splits)
  ultimately show ?thesis by (simp add: dates_loadMap)
qed

lemma getLast7Days_loop_length:
  "length (getLast7Days_loop tza now i acc) = length acc + nat (i + 1)"
proof (induction tza now i acc rule: getLast7Days_loop.induct)
  case (1 tza now i acc)
  show ?case
  proof (cases "i \<ge> 0")
    case True
    then show ?thesis using "1.IH" by (subst getLast7Days_loop.simps) simp
  next
    case False
    then show ?thesis by (subst getLast7Days_loop.simps) simp
  qed
qed

lemma getLast7Days_length: "length (getLast7Days tza now) = 7"
  by (simp add: getLast7Days_def getLast7Days_loop_length)

lemma getLast7Days_unfold:
  "getLast7Days tza now =
     map (\<lambda>i. toISOString_date (setDate_getDate_minus tza (now i) i)) [6, 5, 4, 3, 2, 1, 0]"
  by (simp add: getLast7Days_def getLast7Days_loop.simps)

lemma Day_minus_days: "Day (t - i * msPerDay) = Day t - i"
proof -
  have "t - i * msPerDay = t + (- i) * msPerDay" by simp
  moreover have "(t + (- i) * msPerDay) div msPerDay = t div msPerDay + (- i)"
    by (simp add: msPerDay_def)
  ultimately show ?thesis by (simp add: Day_def)
qed

lemma getLast7Days_fixed_offset:
  "getLast7Days (fixed_offset z) (\<lambda>i. t) =
     map (\<lambda>i. date_string (civil_from_days (Day t - i))) [6, 5, 4, 3, 2, 1, 0]"
proof -
  have "setDate_getDate_minus (fixed_offset z) t i = t - i * msPerDay" for i
    by (simp add: setDate_getDate_minus_def UTC_def LocalTime_def fixed_offset_def)
  then show ?thesis
    by (simp add: getLast7Days_unfold toISOString_date_def Day_minus_days)
qed

lemma berlin_days:
  "Day (setDate_getDate_minus europe_berlin_spring_2026 1774827000000 6) = 20536"
  "Day (setDate_getDate_minus europe_berlin_spring_2026 1774827000000 5) = 20537"
  "Day (setDate_getDate_minus europe_berlin_spring_2026 1774827000000 4) = 20538"
  "Day (setDate_getDate_minus europe_berlin_spring_2026 1774827000000 3) = 20539"
  "Day (setDate_getDate_minus europe_berlin_spring_2026 1774827000000 2) = 20540"
  "Day (setDate_getDate_minus europe_berlin_spring_2026 1774827000000 1) = 20541"
  "Day (setDate_getDate_minus europe_berlin_spring_2026 1774827000000 0) = 20541"
  "Day (LocalTime europe_berlin_spring_2026 1774827000000) = 20542"
  by (simp_all add: setDate_getDate_minus_def UTC_def LocalTime_def
        europe_berlin_spring_2026_def msPerDay_def Day_def)

lemma march_2026:
  "civil_from_days 20536 = (2026, 3, 24)"
  "civil_from_days 20537 = (2026, 3, 25)"
  "civil_from_days 20538 = (2026, 3, 26)"
  "civil_from_days 20539 = (2026, 3, 27)"
  "civil_from_days 20540 = (2026, 3, 28)"
  "civil_from_days 20541 = (2026, 3, 29)"
  "civil_from_days 20542 = (2026, 3, 30)"
  by code_simp+

lemma november_2026:
  "civil_from_days 20753 = (2026, 10, 27)"
  "civil_from_days 20758 = (2026, 11, 1)"
  "civil_from_days 20759 = (2026, 11, 2)"
  by code_simp+

lemma getLast7Days_utc_date:
  "last (getLast7Days (fixed_offset 28800000) (\<lambda>i. 1793574000000)) = ascii ''2026-11-01''
   \<and> date_string (civil_from_days (Day (LocalTime (fixed_offset 28800000) 1793574000000)))
       = ascii ''2026-11-02''"
  by (simp add: getLast7Days_fixed_offset LocalTime_def fixed_offset_def Day_def msPerDay_def
        november_2026 pad4_def pad2_def digit_def ascii_def)

text \<open>
  C8. The window is meant to hold today and the six days before it. It always has seven
  entries (\<open>getLast7Days_length\<close>), it is never written after the first render
  (\<open>dates_never_refreshed\<close>), and with a constant offset between local time and UTC and a
  clock that does not move during the loop its entries are the seven consecutive UTC
  dates ending with the UTC date of the clock (\<open>getLast7Days_fixed_offset\<close>). But the days
  are subtracted in local time and the dates are printed in UTC. In Berlin, on
  30 March 2026 at 01:30 local time (29 March, 23:30 UTC), the night after summer time
  began, the window holds 29 March twice, starts on 24 March, and does not hold the local
  date, 30 March.
\<close>

theorem getLast7Days_repeats_a_day:
  "getLast7Days europe_berlin_spring_2026 (\<lambda>i. 1774827000000)
     = map ascii [''2026-03-24'', ''2026-03-25'', ''2026-03-26'', ''2026-03-27'',
                  ''2026-03-28'', ''2026-03-29'', ''2026-03-29'']
   \<and> date_string (civil_from_days (Day (LocalTime europe_berlin_spring_2026 1774827000000)))
       = ascii ''2026-03-30''"
  by (simp add: getLast7Days_unfold toISOString_date_def berlin_days march_2026
        pad4_def pad2_def digit_def ascii_def)

end
